theory Spec2Isabelle
  imports Main
begin

section \<open>The CSS selector builder of 05-objects-tasks.js\<close>

text \<open>
  The builder works on mutable objects: a part-adder pushes onto the array of the
  Selector it is called on and returns \<open>this\<close>. The model therefore keeps an explicit
  store of Selector objects, and every call takes the store and returns its result
  together with the store it leaves behind. A \<open>throw\<close> is the result \<open>Inl\<close>.
\<close>

subsection \<open>Values, objects and the store\<close>

text \<open>
  The object literal \<open>{ selector: ..., value }\<close>; both fields are JavaScript strings.
  The field \<open>value\<close> is written \<open>value'\<close> here.
\<close>

record part =
  selector :: string
  value' :: string

text \<open>An instance of \<open>class Selector\<close>: its only field is the array \<open>selectorsStorage\<close>.\<close>

record Selector =
  selectorsStorage :: "part list"

type_synonym ref = nat

text \<open>
  The store: the Selector object behind every reference, and the number of references
  handed out so far by \<open>new Selector\<close> (the references below it are the live ones).
\<close>

record heap =
  objects :: "ref \<Rightarrow> Selector"
  allocated :: nat

definition empty_heap :: heap where
  "empty_heap = \<lparr>objects = (\<lambda>_. \<lparr>selectorsStorage = []\<rparr>), allocated = 0\<rparr>"

text \<open>
  What a call can throw: \<open>new Error(message)\<close>, or the TypeError of the runtime when a
  property of \<open>undefined\<close> is read.
\<close>

datatype exn = Error string | TypeError

subsection \<open>class Selector\<close>

text \<open>\<open>constructor(obj) { this.selectorsStorage = [obj]; }\<close>, run by \<open>new\<close> on a fresh object.\<close>

definition Selector_constructor :: "part \<Rightarrow> heap \<Rightarrow> ref \<times> heap" where
  "Selector_constructor obj h =
     (allocated h,
      h\<lparr>objects := (objects h)(allocated h := \<lparr>selectorsStorage = [obj]\<rparr>),
        allocated := Suc (allocated h)\<rparr>)"

text \<open>\<open>this.selectorsStorage.push(item)\<close>.\<close>

definition push :: "ref \<Rightarrow> part \<Rightarrow> heap \<Rightarrow> heap" where
  "push this item h =
     h\<lparr>objects := (objects h)
        (this := (objects h this)\<lparr>selectorsStorage :=
                   selectorsStorage (objects h this) @ [item]\<rparr>)\<rparr>"

text \<open>\<open>Array.prototype.indexOf\<close>: the first index holding the element, \<open>-1\<close> when there is none.\<close>

fun indexOf :: "'a list \<Rightarrow> 'a \<Rightarrow> int" where
  "indexOf [] x = - 1"
| "indexOf (y # ys) x =
     (if y = x then 0
      else (let i = indexOf ys x in if i < 0 then - 1 else i + 1))"

definition selectorsOrder :: "string list" where
  "selectorsOrder =
     [''element'', ''id'', ''class'', ''attr'', ''pseudoClass'', ''pseudoElement'']"

text \<open>
  \<open>check(selector)\<close>. The uniqueness test comes first. \<open>this.selectorsStorage.at(-1)\<close> is
  the last element, or \<open>undefined\<close> on an empty array, and reading \<open>.selector\<close> of
  \<open>undefined\<close> throws a TypeError. Nothing is written.
\<close>

definition Selector_check :: "string \<Rightarrow> ref \<Rightarrow> heap \<Rightarrow> (exn + unit) \<times> heap" where
  "Selector_check sel this h =
     (if (sel = ''element'' \<or> sel = ''id'' \<or> sel = ''pseudoElement'') \<and>
         length (filter (\<lambda>item. selector item = sel)
                        (selectorsStorage (objects h this))) > 0
      then (Inl (Error ''Element, id and pseudo-element should not occur more then one time inside the selector''), h)
      else (case selectorsStorage (objects h this) of
              [] \<Rightarrow> (Inl TypeError, h)
            | _ # _ \<Rightarrow>
                (let lastElem = selector (last (selectorsStorage (objects h this)))
                 in if indexOf selectorsOrder sel < indexOf selectorsOrder lastElem
                    then (Inl (Error ''Selector parts should be arranged in the following order: element, id, class, attribute, pseudo-class, pseudo-element''), h)
                    else (Inr (), h))))"

text \<open>The six part-adders: \<open>this.check(kind); this.selectorsStorage.push({...}); return this;\<close>\<close>

definition Selector_element :: "string \<Rightarrow> ref \<Rightarrow> heap \<Rightarrow> (exn + ref) \<times> heap" where
  "Selector_element v this h =
     (case Selector_check ''element'' this h of
        (Inl e, h1) \<Rightarrow> (Inl e, h1)
      | (Inr _, h1) \<Rightarrow> (Inr this, push this \<lparr>selector = ''element'', value' = v\<rparr> h1))"

definition Selector_id :: "string \<Rightarrow> ref \<Rightarrow> heap \<Rightarrow> (exn + ref) \<times> heap" where
  "Selector_id v this h =
     (case Selector_check ''id'' this h of
        (Inl e, h1) \<Rightarrow> (Inl e, h1)
      | (Inr _, h1) \<Rightarrow> (Inr this, push this \<lparr>selector = ''id'', value' = v\<rparr> h1))"

definition Selector_class :: "string \<Rightarrow> ref \<Rightarrow> heap \<Rightarrow> (exn + ref) \<times> heap" where
  "Selector_class v this h =
     (case Selector_check ''class'' this h of
        (Inl e, h1) \<Rightarrow> (Inl e, h1)
      | (Inr _, h1) \<Rightarrow> (Inr this, push this \<lparr>selector = ''class'', value' = v\<rparr> h1))"

definition Selector_attr :: "string \<Rightarrow> ref \<Rightarrow> heap \<Rightarrow> (exn + ref) \<times> heap" where
  "Selector_attr v this h =
     (case Selector_check ''attr'' this h of
        (Inl e, h1) \<Rightarrow> (Inl e, h1)
      | (Inr _, h1) \<Rightarrow> (Inr this, push this \<lparr>selector = ''attr'', value' = v\<rparr> h1))"

definition Selector_pseudoClass :: "string \<Rightarrow> ref \<Rightarrow> heap \<Rightarrow> (exn + ref) \<times> heap" where
  "Selector_pseudoClass v this h =
     (case Selector_check ''pseudoClass'' this h of
        (Inl e, h1) \<Rightarrow> (Inl e, h1)
      | (Inr _, h1) \<Rightarrow> (Inr this, push this \<lparr>selector = ''pseudoClass'', value' = v\<rparr> h1))"

definition Selector_pseudoElement :: "string \<Rightarrow> ref \<Rightarrow> heap \<Rightarrow> (exn + ref) \<times> heap" where
  "Selector_pseudoElement v this h =
     (case Selector_check ''pseudoElement'' this h of
        (Inl e, h1) \<Rightarrow> (Inl e, h1)
      | (Inr _, h1) \<Rightarrow> (Inr this, push this \<lparr>selector = ''pseudoElement'', value' = v\<rparr> h1))"

text \<open>The \<open>switch\<close> in the body of the \<open>forEach\<close> of \<open>stringify\<close>: what one item adds to \<open>string\<close>.\<close>

definition stringify_item :: "part \<Rightarrow> string" where
  "stringify_item item =
     (if selector item = ''id'' then ''#'' @ value' item
      else if selector item = ''class'' then ''.'' @ value' item
      else if selector item = ''attr'' then ''['' @ value' item @ '']''
      else if selector item = ''pseudoClass'' then '':'' @ value' item
      else if selector item = ''pseudoElement'' then ''::'' @ value' item
      else value' item)"

text \<open>\<open>stringify()\<close>: the loop appends to the local \<open>string\<close>, starting from \<open>''\<close>.\<close>

definition Selector_stringify :: "ref \<Rightarrow> heap \<Rightarrow> string \<times> heap" where
  "Selector_stringify this h =
     (fold (\<lambda>item string. string @ stringify_item item)
           (selectorsStorage (objects h this)) [], h)"

subsection \<open>The facade cssSelectorBuilder\<close>

definition cssSelectorBuilder_element :: "string \<Rightarrow> heap \<Rightarrow> ref \<times> heap" where
  "cssSelectorBuilder_element v h =
     Selector_constructor \<lparr>selector = ''element'', value' = v\<rparr> h"

definition cssSelectorBuilder_id :: "string \<Rightarrow> heap \<Rightarrow> ref \<times> heap" where
  "cssSelectorBuilder_id v h =
     Selector_constructor \<lparr>selector = ''id'', value' = v\<rparr> h"

definition cssSelectorBuilder_class :: "string \<Rightarrow> heap \<Rightarrow> ref \<times> heap" where
  "cssSelectorBuilder_class v h =
     Selector_constructor \<lparr>selector = ''class'', value' = v\<rparr> h"

definition cssSelectorBuilder_attr :: "string \<Rightarrow> heap \<Rightarrow> ref \<times> heap" where
  "cssSelectorBuilder_attr v h =
     Selector_constructor \<lparr>selector = ''attr'', value' = v\<rparr> h"

definition cssSelectorBuilder_pseudoClass :: "string \<Rightarrow> heap \<Rightarrow> ref \<times> heap" where
  "cssSelectorBuilder_pseudoClass v h =
     Selector_constructor \<lparr>selector = ''pseudoClass'', value' = v\<rparr> h"

definition cssSelectorBuilder_pseudoElement :: "string \<Rightarrow> heap \<Rightarrow> ref \<times> heap" where
  "cssSelectorBuilder_pseudoElement v h =
     Selector_constructor \<lparr>selector = ''pseudoElement'', value' = v\<rparr> h"

text \<open>
  What \<open>combine\<close> takes and returns: a reference to a Selector, or the object literal
  \<open>{ selector1, combinator, selector2, stringify() {...} }\<close>. No code writes to that
  literal after its creation, so it is a value here; its \<open>stringify\<close> is the second
  equation of \<open>stringify\<close> below, the first being the method of \<open>class Selector\<close>.
\<close>

datatype renderable =
  Sel ref
| Combined (selector1: renderable) (combinator: string) (selector2: renderable)

definition cssSelectorBuilder_combine ::
    "renderable \<Rightarrow> string \<Rightarrow> renderable \<Rightarrow> heap \<Rightarrow> renderable \<times> heap" where
  "cssSelectorBuilder_combine s1 c s2 h = (Combined s1 c s2, h)"

text \<open>
  \<open>x.stringify()\<close>, dispatched on what the object \<open>x\<close> is. The template literal of the
  combined object calls \<open>selector1.stringify()\<close> first, then \<open>selector2.stringify()\<close>.
\<close>

fun stringify :: "renderable \<Rightarrow> heap \<Rightarrow> string \<times> heap" where
  "stringify (Sel this) h = Selector_stringify this h"
| "stringify (Combined s1 c s2) h =
     (case stringify s1 h of (a, h1) \<Rightarrow>
        (case stringify s2 h1 of (b, h2) \<Rightarrow>
           (a @ '' '' @ c @ '' '' @ b, h2)))"

subsection \<open>The six kinds, and call chains\<close>

text \<open>
  The six kinds of part, to speak about the six adders and the six constructors at once.
  \<open>kind_name\<close> is the string the source uses for the kind, \<open>rank\<close> its place in the order
  element, id, class, attribute, pseudo-class, pseudo-element.
\<close>

datatype kind = KElement | KId | KClass | KAttribute | KPseudoClass | KPseudoElement

fun kind_name :: "kind \<Rightarrow> string" where
  "kind_name KElement = ''element''"
| "kind_name KId = ''id''"
| "kind_name KClass = ''class''"
| "kind_name KAttribute = ''attr''"
| "kind_name KPseudoClass = ''pseudoClass''"
| "kind_name KPseudoElement = ''pseudoElement''"

fun rank :: "kind \<Rightarrow> nat" where
  "rank KElement = 0"
| "rank KId = 1"
| "rank KClass = 2"
| "rank KAttribute = 3"
| "rank KPseudoClass = 4"
| "rank KPseudoElement = 5"

text \<open>The kinds that may occur once only.\<close>

fun once_only :: "kind \<Rightarrow> bool" where
  "once_only KElement = True"
| "once_only KId = True"
| "once_only KPseudoElement = True"
| "once_only _ = False"

text \<open>The method of \<open>class Selector\<close> that adds a part of the kind.\<close>

fun adder :: "kind \<Rightarrow> string \<Rightarrow> ref \<Rightarrow> heap \<Rightarrow> (exn + ref) \<times> heap" where
  "adder KElement = Selector_element"
| "adder KId = Selector_id"
| "adder KClass = Selector_class"
| "adder KAttribute = Selector_attr"
| "adder KPseudoClass = Selector_pseudoClass"
| "adder KPseudoElement = Selector_pseudoElement"

text \<open>The function of the facade that starts a Selector with a part of the kind.\<close>

fun facade :: "kind \<Rightarrow> string \<Rightarrow> heap \<Rightarrow> ref \<times> heap" where
  "facade KElement = cssSelectorBuilder_element"
| "facade KId = cssSelectorBuilder_id"
| "facade KClass = cssSelectorBuilder_class"
| "facade KAttribute = cssSelectorBuilder_attr"
| "facade KPseudoClass = cssSelectorBuilder_pseudoClass"
| "facade KPseudoElement = cssSelectorBuilder_pseudoElement"

text \<open>
  A chain \<open>x.k1(v1).k2(v2)...\<close>: each adder is called on what the one before returned, and
  the first exception ends the chain.
\<close>

fun chain :: "(kind \<times> string) list \<Rightarrow> ref \<Rightarrow> heap \<Rightarrow> (exn + ref) \<times> heap" where
  "chain [] this h = (Inr this, h)"
| "chain ((k, v) # ps) this h =
     (case adder k v this h of
        (Inl e, h1) \<Rightarrow> (Inl e, h1)
      | (Inr r, h1) \<Rightarrow> chain ps r h1)"

text \<open>\<open>cssSelectorBuilder.k(v).k1(v1).k2(v2)...\<close>\<close>

definition build :: "kind \<times> string \<Rightarrow> (kind \<times> string) list \<Rightarrow> heap \<Rightarrow> (exn + ref) \<times> heap" where
  "build p ps h = (case facade (fst p) (snd p) h of (r, h1) \<Rightarrow> chain ps r h1)"

text \<open>The token the specification gives for a part of each kind.\<close>

fun token :: "kind \<times> string \<Rightarrow> string" where
  "token (KElement, v) = v"
| "token (KId, v) = ''#'' @ v"
| "token (KClass, v) = ''.'' @ v"
| "token (KAttribute, v) = ''['' @ v @ '']''"
| "token (KPseudoClass, v) = '':'' @ v"
| "token (KPseudoElement, v) = ''::'' @ v"

text \<open>The part that the source stores for a kind and a value.\<close>

definition part_of :: "kind \<times> string \<Rightarrow> part" where
  "part_of p = \<lparr>selector = kind_name (fst p), value' = snd p\<rparr>"

text \<open>
  Programs over the public surface: a call of one of the six constructors, of an adder,
  of \<open>check\<close>, of \<open>combine\<close> or of \<open>stringify\<close>. A program holds no reference but those
  that a constructor has returned, which \<open>in_scope\<close> says. An exception may be caught,
  so the calls after it still run, on the store it left.
\<close>

datatype call =
  Create kind string
| Add ref kind string
| Check ref string
| Combine renderable string renderable
| Stringify renderable

fun refs_of :: "renderable \<Rightarrow> ref list" where
  "refs_of (Sel r) = [r]"
| "refs_of (Combined s1 c s2) = refs_of s1 @ refs_of s2"

fun run_call :: "call \<Rightarrow> heap \<Rightarrow> heap" where
  "run_call (Create k v) h = snd (facade k v h)"
| "run_call (Add r k v) h = snd (adder k v r h)"
| "run_call (Check r sel) h = snd (Selector_check sel r h)"
| "run_call (Combine s1 c s2) h = snd (cssSelectorBuilder_combine s1 c s2 h)"
| "run_call (Stringify s) h = snd (stringify s h)"

fun in_scope :: "call \<Rightarrow> heap \<Rightarrow> bool" where
  "in_scope (Create k v) h = True"
| "in_scope (Add r k v) h = (r < allocated h)"
| "in_scope (Check r sel) h = (r < allocated h)"
| "in_scope (Combine s1 c s2) h = list_all (\<lambda>r. r < allocated h) (refs_of s1 @ refs_of s2)"
| "in_scope (Stringify s) h = list_all (\<lambda>r. r < allocated h) (refs_of s)"

fun run_calls :: "call list \<Rightarrow> heap \<Rightarrow> heap option" where
  "run_calls [] h = Some h"
| "run_calls (c # cs) h = (if in_scope c h then run_calls cs (run_call c h) else None)"

text \<open>The invariant of those programs: every live Selector holds at least one part.\<close>

definition live_nonempty :: "heap \<Rightarrow> bool" where
  "live_nonempty h = list_all (\<lambda>r. selectorsStorage (objects h r) \<noteq> []) [0 ..< allocated h]"

section \<open>Properties\<close>

subsection \<open>Auxiliary facts\<close>

lemma check_heap: "snd (Selector_check sel this h) = h"
  by (simp add: Selector_check_def Let_def split: list.split)

lemma indexOf_kind: "indexOf selectorsOrder (kind_name k) = int (rank k)"
  by (cases k) (simp_all add: selectorsOrder_def)

lemma kind_name_inj: "kind_name k = kind_name k' \<longleftrightarrow> k = k'"
  by (cases k; cases k') simp_all

lemma once_only_name:
  "(kind_name k = ''element'' \<or> kind_name k = ''id'' \<or> kind_name k = ''pseudoElement'') \<longleftrightarrow> once_only k"
  by (cases k) simp_all

lemma adder_check:
  "adder k v this h =
     (case Selector_check (kind_name k) this h of
        (Inl e, h1) \<Rightarrow> (Inl e, h1)
      | (Inr u, h1) \<Rightarrow> (Inr this, push this (part_of (k, v)) h1))"
  by (cases k)
     (simp_all add: Selector_element_def Selector_id_def Selector_class_def
        Selector_attr_def Selector_pseudoClass_def Selector_pseudoElement_def part_of_def
        split: prod.split sum.split)

lemma check_kind:
  "Selector_check (kind_name k) this h =
     (if once_only k \<and> (\<exists>p \<in> set (selectorsStorage (objects h this)). selector p = kind_name k)
      then (Inl (Error ''Element, id and pseudo-element should not occur more then one time inside the selector''), h)
      else if selectorsStorage (objects h this) = [] then (Inl TypeError, h)
      else if int (rank k) < indexOf selectorsOrder (selector (last (selectorsStorage (objects h this))))
      then (Inl (Error ''Selector parts should be arranged in the following order: element, id, class, attribute, pseudo-class, pseudo-element''), h)
      else (Inr (), h))"
  unfolding Selector_check_def once_only_name indexOf_kind Let_def
  by (auto simp: filter_empty_conv split: list.split)

lemma fold_append_concat:
  "fold (\<lambda>item string. string @ f item) xs acc = acc @ concat (map f xs)"
  by (induction xs arbitrary: acc) simp_all

lemma stringify_item_part_of: "stringify_item (part_of p) = token p"
  by (cases p, cases "fst p") (simp_all add: stringify_item_def part_of_def)

lemma selector_part_of: "selector (part_of q) = kind_name (fst q)"
  by (simp add: part_of_def)

lemma storage_push:
  "selectorsStorage (objects (push this item h) r) =
     (if r = this then selectorsStorage (objects h this) @ [item]
      else selectorsStorage (objects h r))"
  by (simp add: push_def)

lemma allocated_push: "allocated (push this item h) = allocated h"
  by (simp add: push_def)

lemma adder_passes:
  assumes st: "selectorsStorage (objects h this) = map part_of qs"
    and ne: "qs \<noteq> []"
    and uniq: "once_only k \<longrightarrow> k \<notin> fst ` set qs"
    and ord: "rank (fst (last qs)) \<le> rank k"
  shows "adder k v this h = (Inr this, push this (part_of (k, v)) h)"
proof -
  have no_dup: "\<not> (once_only k \<and>
      (\<exists>p \<in> set (selectorsStorage (objects h this)). selector p = kind_name k))"
    using uniq by (auto simp: st selector_part_of kind_name_inj)
  have last_rank: "indexOf selectorsOrder (selector (last (selectorsStorage (objects h this))))
      = int (rank (fst (last qs)))"
    using ne by (simp add: st last_map selector_part_of indexOf_kind)
  have "Selector_check (kind_name k) this h = (Inr (), h)"
    using no_dup ne ord by (simp add: check_kind last_rank) (simp add: st)
  then show ?thesis by (simp add: adder_check)
qed

lemma chain_passes:
  assumes "selectorsStorage (objects h this) = map part_of qs"
    and "qs \<noteq> []"
    and "sorted (map (rank \<circ> fst) (qs @ ps))"
    and "\<forall>k. once_only k \<longrightarrow> count_list (map fst (qs @ ps)) k \<le> 1"
  shows "fst (chain ps this h) = Inr this \<and>
         selectorsStorage (objects (snd (chain ps this h)) this) = map part_of (qs @ ps)"
  using assms
proof (induction ps arbitrary: h qs)
  case Nil
  then show ?case by simp
next
  case (Cons a ps)
  obtain k v where a: "a = (k, v)" by (cases a)
  have uniq: "once_only k \<longrightarrow> k \<notin> fst ` set qs"
  proof
    assume "once_only k"
    then have "count_list (map fst (qs @ a # ps)) k \<le> 1" using Cons.prems(4) by blast
    then have "count_list (map fst qs) k = 0" by (simp add: a)
    then show "k \<notin> fst ` set qs" by (simp add: count_list_0_iff)
  qed
  have ord: "rank (fst (last qs)) \<le> rank k"
    using Cons.prems(2,3) by (auto simp: a sorted_append)
  have step: "adder k v this h = (Inr this, push this (part_of (k, v)) h)"
    using adder_passes [OF Cons.prems(1,2) uniq ord] .
  have "fst (chain ps this (push this (part_of a) h)) = Inr this \<and>
        selectorsStorage (objects (snd (chain ps this (push this (part_of a) h))) this)
          = map part_of ((qs @ [a]) @ ps)"
    by (rule Cons.IH) (use Cons.prems in \<open>simp_all add: storage_push\<close>)
  then show ?case by (simp add: a step)
qed

lemma facade_constructor:
  "facade k v h = Selector_constructor (part_of (k, v)) h"
  by (cases k)
     (simp_all add: cssSelectorBuilder_element_def cssSelectorBuilder_id_def
        cssSelectorBuilder_class_def cssSelectorBuilder_attr_def
        cssSelectorBuilder_pseudoClass_def cssSelectorBuilder_pseudoElement_def part_of_def)

lemma Selector_stringify_concat:
  "fst (Selector_stringify this h) = concat (map stringify_item (selectorsStorage (objects h this)))"
  by (simp add: Selector_stringify_def fold_append_concat)

lemma stringify_heap: "snd (stringify e h) = h"
proof (induction e arbitrary: h)
  case (Sel r)
  show ?case by (simp add: Selector_stringify_def)
next
  case (Combined s1 c s2)
  obtain a h1 where a: "stringify s1 h = (a, h1)" by (cases "stringify s1 h")
  obtain b h2 where b: "stringify s2 h1 = (b, h2)" by (cases "stringify s2 h1")
  have h1: "h1 = h" using Combined.IH(1) [of h] by (simp add: a)
  have h2: "h2 = h1" using Combined.IH(2) [of h1] by (simp add: b)
  have "stringify (Combined s1 c s2) h = (a @ '' '' @ c @ '' '' @ b, h2)"
    by (simp add: a b)
  then show ?case by (simp add: h1 h2)
qed

lemma stringify_Combined:
  "fst (stringify (Combined s1 c s2) h) = fst (stringify s1 h) @ '' '' @ c @ '' '' @ fst (stringify s2 h)"
proof -
  obtain a h1 where a: "stringify s1 h = (a, h1)" by (cases "stringify s1 h")
  then have h1: "h1 = h" using stringify_heap [of s1 h] by simp
  obtain b h2 where b: "stringify s2 h = (b, h2)" by (cases "stringify s2 h")
  show ?thesis using b by (simp add: a h1)
qed

lemma combine_heap: "snd (cssSelectorBuilder_combine s1 c s2 h) = h"
  by (simp add: cssSelectorBuilder_combine_def)

lemma adder_heap_cases:
  "snd (adder k v this h) = h \<or> snd (adder k v this h) = push this (part_of (k, v)) h"
  by (simp add: adder_check check_kind)

lemma live_nonempty_iff:
  "live_nonempty h \<longleftrightarrow> (\<forall>r < allocated h. selectorsStorage (objects h r) \<noteq> [])"
  by (auto simp: live_nonempty_def list_all_iff)

lemma live_nonempty_facade: "live_nonempty h \<Longrightarrow> live_nonempty (snd (facade k v h))"
  by (auto simp: live_nonempty_iff facade_constructor Selector_constructor_def less_Suc_eq)

lemma live_nonempty_adder: "live_nonempty h \<Longrightarrow> live_nonempty (snd (adder k v r h))"
  using adder_heap_cases [of k v r h]
  by (auto simp: live_nonempty_iff storage_push allocated_push split: if_splits)

lemma live_nonempty_run_call: "live_nonempty h \<Longrightarrow> live_nonempty (run_call c h)"
  by (cases c)
     (simp_all add: live_nonempty_facade live_nonempty_adder check_heap combine_heap stringify_heap
        del: facade.simps adder.simps stringify.simps)

lemma live_nonempty_run_calls:
  "live_nonempty h \<Longrightarrow> run_calls cs h = Some h' \<Longrightarrow> live_nonempty h'"
proof (induction cs arbitrary: h)
  case Nil
  then show ?case by simp
next
  case (Cons c cs)
  from Cons.prems(2) have "run_calls cs (run_call c h) = Some h'"
    by (simp split: if_splits)
  with Cons.IH [OF live_nonempty_run_call [OF Cons.prems(1)]] show ?case .
qed

text \<open>The definitions that evaluating a concrete program unfolds.\<close>

lemmas run_defs =
  Selector_element_def Selector_id_def Selector_class_def Selector_attr_def
  Selector_pseudoClass_def Selector_pseudoElement_def Selector_check_def
  cssSelectorBuilder_element_def cssSelectorBuilder_id_def cssSelectorBuilder_class_def
  cssSelectorBuilder_attr_def cssSelectorBuilder_pseudoClass_def
  cssSelectorBuilder_pseudoElement_def Selector_constructor_def push_def
  selectorsOrder_def empty_heap_def

subsection \<open>C1: the string of a valid chain\<close>

text \<open>
  C1. A chain started by a constructor of the facade, in which the ranks of the kinds
  never decrease and at most one part each of kind element, id and pseudo-element is
  added, raises nothing and returns the Selector the constructor made; its
  \<open>stringify()\<close> is then the concatenation, in the order of addition, of the tokens of
  the parts: element gives the value, id \<open>#value\<close>, class \<open>.value\<close>, attribute
  \<open>[value]\<close>, pseudo-class \<open>:value\<close>, pseudo-element \<open>::value\<close>.
\<close>

theorem build_stringify:
  assumes "sorted (map (rank \<circ> fst) (p # ps))"
    and "count_list (map fst (p # ps)) KElement \<le> 1"
    and "count_list (map fst (p # ps)) KId \<le> 1"
    and "count_list (map fst (p # ps)) KPseudoElement \<le> 1"
  shows "fst (build p ps h) = Inr (allocated h) \<and>
         fst (Selector_stringify (allocated h) (snd (build p ps h))) = concat (map token (p # ps))"
proof -
  define h1 where "h1 = snd (facade (fst p) (snd p) h)"
  have b: "build p ps h = chain ps (allocated h) h1"
    by (simp add: build_def h1_def facade_constructor Selector_constructor_def)
  have st: "selectorsStorage (objects h1 (allocated h)) = map part_of [p]"
    by (simp add: h1_def facade_constructor Selector_constructor_def)
  have once: "\<forall>k. once_only k \<longrightarrow> count_list (map fst ([p] @ ps)) k \<le> 1"
  proof (intro allI impI)
    fix k assume "once_only k"
    then show "count_list (map fst ([p] @ ps)) k \<le> 1"
      using assms(2-4) by (cases k) simp_all
  qed
  have "fst (chain ps (allocated h) h1) = Inr (allocated h) \<and>
        selectorsStorage (objects (snd (chain ps (allocated h) h1)) (allocated h))
          = map part_of ([p] @ ps)"
    by (rule chain_passes [OF st _ _ once]) (use assms(1) in simp_all)
  then show ?thesis
    by (simp add: b Selector_stringify_concat stringify_item_part_of comp_def)
qed

text \<open>The chain \<open>id('main').class('container').class('editable')\<close> of the source's comment.\<close>

theorem build_stringify_witness:
  "fst (build (KId, ''main'') [(KClass, ''container''), (KClass, ''editable'')] empty_heap) = Inr 0 \<and>
   fst (Selector_stringify 0
          (snd (build (KId, ''main'') [(KClass, ''container''), (KClass, ''editable'')] empty_heap)))
     = ''#main.container.editable''"
  using build_stringify [of "(KId, ''main'')" "[(KClass, ''container''), (KClass, ''editable'')]" empty_heap]
  by (simp add: empty_heap_def)

subsection \<open>C2: a second element, id or pseudo-element\<close>

text \<open>
  C2, as stated, at \<open>id('a').id('b')\<close>: the call raises, but the message of the error is
  not the one the claim quotes, which reads "more than one time".
\<close>

theorem duplicate_message_counterexample:
  "fst (build (KId, ''a'') [(KId, ''b'')] empty_heap) \<noteq>
     Inl (Error ''Element, id and pseudo-element should not occur more than one time inside the selector'')"
  by (simp add: build_def run_defs)

text \<open>
  C2, amended: on every Selector that already holds a part of kind element, id or
  pseudo-element, the adder of that same kind raises an Error whose message is
  "Element, id and pseudo-element should not occur more then one time inside the
  selector", the literal of the source.
\<close>

theorem duplicate_raises:
  assumes "once_only k"
    and "\<exists>p \<in> set (selectorsStorage (objects h this)). selector p = kind_name k"
  shows "fst (adder k v this h) =
     Inl (Error ''Element, id and pseudo-element should not occur more then one time inside the selector'')"
  using assms by (simp add: adder_check check_kind)

text \<open>\<open>id('a').id('b')\<close>\<close>

theorem duplicate_raises_witness:
  "fst (adder KId ''b'' 0 (snd (facade KId ''a'' empty_heap))) =
     Inl (Error ''Element, id and pseudo-element should not occur more then one time inside the selector'')"
  using duplicate_raises [of KId "snd (facade KId ''a'' empty_heap)" 0 "''b''"]
  by (simp add: run_defs)

subsection \<open>C3: the order of the parts\<close>

text \<open>
  C3, as stated, at \<open>element('a').class('c').element('b')\<close>: the two first calls
  succeed, the last part is a class, element ranks strictly below class, and yet the
  call of \<open>element\<close> does not raise the error of the ordering check.
\<close>

theorem order_error_counterexample:
  "fst (build (KElement, ''a'') [(KClass, ''c'')] empty_heap) = Inr 0 \<and>
   selector (last (selectorsStorage (objects
       (snd (build (KElement, ''a'') [(KClass, ''c'')] empty_heap)) 0))) = kind_name KClass \<and>
   rank KElement < rank KClass \<and>
   fst (adder KElement ''b'' 0 (snd (build (KElement, ''a'') [(KClass, ''c'')] empty_heap))) \<noteq>
     Inl (Error ''Selector parts should be arranged in the following order: element, id, class, attribute, pseudo-class, pseudo-element'')"
  by (simp add: build_def run_defs)

text \<open>
  C3, amended: on every Selector whose last part has kind \<open>k'\<close>, the adder of a kind of
  strictly lower rank raises an Error with the message "Selector parts should be
  arranged in the following order: element, id, class, attribute, pseudo-class,
  pseudo-element", unless the uniqueness check fails first (the kind is element, id or
  pseudo-element and the Selector holds a part of it); the adder of a kind of equal or
  greater rank does not raise that error.
\<close>

theorem order_check:
  assumes "selectorsStorage (objects h this) \<noteq> []"
    and "selector (last (selectorsStorage (objects h this))) = kind_name k'"
  shows "(rank k < rank k' \<and>
          \<not> (once_only k \<and> (\<exists>p \<in> set (selectorsStorage (objects h this)). selector p = kind_name k))
          \<longrightarrow> fst (adder k v this h) =
                Inl (Error ''Selector parts should be arranged in the following order: element, id, class, attribute, pseudo-class, pseudo-element''))
       \<and> (rank k' \<le> rank k
          \<longrightarrow> fst (adder k v this h) \<noteq>
                Inl (Error ''Selector parts should be arranged in the following order: element, id, class, attribute, pseudo-class, pseudo-element''))"
  using assms by (simp add: adder_check check_kind indexOf_kind)

text \<open>\<open>class('c').element('div')\<close> raises it, \<open>class('c').class('d')\<close> does not.\<close>

theorem order_check_witness:
  "fst (adder KElement ''div'' 0 (snd (facade KClass ''c'' empty_heap))) =
     Inl (Error ''Selector parts should be arranged in the following order: element, id, class, attribute, pseudo-class, pseudo-element'') \<and>
   fst (adder KClass ''d'' 0 (snd (facade KClass ''c'' empty_heap))) \<noteq>
     Inl (Error ''Selector parts should be arranged in the following order: element, id, class, attribute, pseudo-class, pseudo-element'')"
  using order_check [of "snd (facade KClass ''c'' empty_heap)" 0 KClass KElement "''div''"]
        order_check [of "snd (facade KClass ''c'' empty_heap)" 0 KClass KClass "''d''"]
  by (simp add: run_defs)

subsection \<open>C4: the string of a combined expression\<close>

text \<open>
  C4. For all renderables \<open>l\<close> and \<open>r\<close> and every string \<open>c\<close>, the \<open>stringify()\<close> of
  \<open>combine(l, c, r)\<close> is \<open>l.stringify() + ' ' + c + ' ' + r.stringify()\<close>, whatever \<open>c\<close>
  is; and \<open>combine(A, '+', combine(B, '~', C))\<close> gives
  \<open>A.stringify() + ' + ' + B.stringify() + ' ~ ' + C.stringify()\<close>. The renderables
  are of any depth.
\<close>

theorem combine_stringify:
  "fst (stringify (fst (cssSelectorBuilder_combine l c r h))
                  (snd (cssSelectorBuilder_combine l c r h)))
     = fst (stringify l h) @ '' '' @ c @ '' '' @ fst (stringify r h) \<and>
   (let (x, h1) = cssSelectorBuilder_combine B ''~'' C h;
        (y, h2) = cssSelectorBuilder_combine A ''+'' x h1
    in fst (stringify y h2))
     = fst (stringify A h) @ '' + '' @ fst (stringify B h) @ '' ~ '' @ fst (stringify C h)"
  by (simp add: cssSelectorBuilder_combine_def stringify_Combined del: stringify.simps)

subsection \<open>C5: uniqueness is checked before order\<close>

text \<open>
  C5. When a call breaks both rules (the kind is element, id or pseudo-element, the
  Selector holds a part of that kind, and the kind ranks strictly below the kind of the
  last part), the error raised is the one of the uniqueness check, not the one of the
  ordering check.
\<close>

theorem uniqueness_before_order:
  assumes "once_only k"
    and "\<exists>p \<in> set (selectorsStorage (objects h this)). selector p = kind_name k"
    and "selectorsStorage (objects h this) \<noteq> []"
    and "selector (last (selectorsStorage (objects h this))) = kind_name k'"
    and "rank k < rank k'"
  shows "fst (adder k v this h) =
           Inl (Error ''Element, id and pseudo-element should not occur more then one time inside the selector'') \<and>
         fst (adder k v this h) \<noteq>
           Inl (Error ''Selector parts should be arranged in the following order: element, id, class, attribute, pseudo-class, pseudo-element'')"
  using assms(1,2) by (simp add: adder_check check_kind)

text \<open>\<open>element('a').class('c').element('b')\<close>\<close>

theorem uniqueness_before_order_witness:
  "fst (adder KElement ''b'' 0 (snd (build (KElement, ''a'') [(KClass, ''c'')] empty_heap))) =
     Inl (Error ''Element, id and pseudo-element should not occur more then one time inside the selector'')"
  using uniqueness_before_order
    [of KElement "snd (build (KElement, ''a'') [(KClass, ''c'')] empty_heap)" 0 KClass "''b''"]
  by (simp add: build_def run_defs)

subsection \<open>C6: what the constructors and the adders return\<close>

text \<open>
  C6. Each constructor of the facade returns a reference that was not live before, to a
  Selector that holds exactly one part, of the matching kind and with the given value,
  and leaves every other object as it was. Each adder whose check passes (the Selector
  holds a part, none of the new kind when that kind may occur once only, and the new
  kind does not rank below the kind of the last part) does return, and returns the
  reference it was called on; the Selector behind it then holds its earlier parts,
  unchanged, followed by the new part, and no other object has changed. An adder
  returns in no other way.
\<close>

theorem facade_fresh_adder_same:
  "fst (facade k v h) = allocated h \<and>
   allocated (snd (facade k v h)) = Suc (allocated h) \<and>
   selectorsStorage (objects (snd (facade k v h)) (allocated h))
     = [\<lparr>selector = kind_name k, value' = v\<rparr>] \<and>
   (\<forall>r. r \<noteq> allocated h \<longrightarrow> objects (snd (facade k v h)) r = objects h r) \<and>
   (fst (Selector_check (kind_name k) this h) = Inr () \<longrightarrow>
      adder k v this h = (Inr this, push this \<lparr>selector = kind_name k, value' = v\<rparr> h)) \<and>
   (selectorsStorage (objects h this) \<noteq> [] \<and>
    \<not> (once_only k \<and> (\<exists>p \<in> set (selectorsStorage (objects h this)). selector p = kind_name k)) \<and>
    \<not> int (rank k) < indexOf selectorsOrder (selector (last (selectorsStorage (objects h this))))
    \<longrightarrow>
      fst (adder k v this h) = Inr this \<and>
      selectorsStorage (objects (snd (adder k v this h)) this)
        = selectorsStorage (objects h this) @ [\<lparr>selector = kind_name k, value' = v\<rparr>] \<and>
      (\<forall>r'. r' \<noteq> this \<longrightarrow> objects (snd (adder k v this h)) r' = objects h r') \<and>
      allocated (snd (adder k v this h)) = allocated h) \<and>
   (\<forall>r h'. adder k v this h = (Inr r, h') \<longrightarrow>
      r = this \<and>
      selectorsStorage (objects h' this)
        = selectorsStorage (objects h this) @ [\<lparr>selector = kind_name k, value' = v\<rparr>] \<and>
      (\<forall>r'. r' \<noteq> this \<longrightarrow> objects h' r' = objects h r') \<and>
      allocated h' = allocated h)"
proof -
  have ctor: "facade k v h =
      (allocated h,
       h\<lparr>objects := (objects h)(allocated h := \<lparr>selectorsStorage = [part_of (k, v)]\<rparr>),
         allocated := Suc (allocated h)\<rparr>)"
    by (simp add: facade_constructor Selector_constructor_def)
  have part: "part_of (k, v) = \<lparr>selector = kind_name k, value' = v\<rparr>"
    by (simp add: part_of_def)
  have facade_half:
    "fst (facade k v h) = allocated h \<and>
     allocated (snd (facade k v h)) = Suc (allocated h) \<and>
     selectorsStorage (objects (snd (facade k v h)) (allocated h))
       = [\<lparr>selector = kind_name k, value' = v\<rparr>] \<and>
     (\<forall>r. r \<noteq> allocated h \<longrightarrow> objects (snd (facade k v h)) r = objects h r)"
    by (simp add: ctor part)
  have passes: "fst (Selector_check (kind_name k) this h) = Inr () \<longrightarrow>
      adder k v this h = (Inr this, push this \<lparr>selector = kind_name k, value' = v\<rparr> h)"
  proof
    assume ok: "fst (Selector_check (kind_name k) this h) = Inr ()"
    have "Selector_check (kind_name k) this h = (Inr (), h)"
      using ok check_heap [of "kind_name k" this h] by (simp add: prod_eq_iff)
    then show "adder k v this h = (Inr this, push this \<lparr>selector = kind_name k, value' = v\<rparr> h)"
      by (simp add: adder_check part)
  qed
  have explicit:
    "selectorsStorage (objects h this) \<noteq> [] \<and>
     \<not> (once_only k \<and> (\<exists>p \<in> set (selectorsStorage (objects h this)). selector p = kind_name k)) \<and>
     \<not> int (rank k) < indexOf selectorsOrder (selector (last (selectorsStorage (objects h this))))
     \<longrightarrow>
      fst (adder k v this h) = Inr this \<and>
      selectorsStorage (objects (snd (adder k v this h)) this)
        = selectorsStorage (objects h this) @ [\<lparr>selector = kind_name k, value' = v\<rparr>] \<and>
      (\<forall>r'. r' \<noteq> this \<longrightarrow> objects (snd (adder k v this h)) r' = objects h r') \<and>
      allocated (snd (adder k v this h)) = allocated h"
  proof
    assume a: "selectorsStorage (objects h this) \<noteq> [] \<and>
     \<not> (once_only k \<and> (\<exists>p \<in> set (selectorsStorage (objects h this)). selector p = kind_name k)) \<and>
     \<not> int (rank k) < indexOf selectorsOrder (selector (last (selectorsStorage (objects h this))))"
    then have "Selector_check (kind_name k) this h = (Inr (), h)"
      by (simp add: check_kind)
    then have "adder k v this h = (Inr this, push this \<lparr>selector = kind_name k, value' = v\<rparr> h)"
      by (simp add: adder_check part)
    then show "fst (adder k v this h) = Inr this \<and>
      selectorsStorage (objects (snd (adder k v this h)) this)
        = selectorsStorage (objects h this) @ [\<lparr>selector = kind_name k, value' = v\<rparr>] \<and>
      (\<forall>r'. r' \<noteq> this \<longrightarrow> objects (snd (adder k v this h)) r' = objects h r') \<and>
      allocated (snd (adder k v this h)) = allocated h"
      by (simp add: push_def)
  qed
  have add: "adder k v this h = (Inr r, h') \<Longrightarrow> r = this \<and> h' = push this (part_of (k, v)) h"
    for r h'
    by (auto simp: adder_check check_kind split: if_splits)
  have returns_only:
    "\<forall>r h'. adder k v this h = (Inr r, h') \<longrightarrow>
      r = this \<and>
      selectorsStorage (objects h' this)
        = selectorsStorage (objects h this) @ [\<lparr>selector = kind_name k, value' = v\<rparr>] \<and>
      (\<forall>r'. r' \<noteq> this \<longrightarrow> objects h' r' = objects h r') \<and>
      allocated h' = allocated h"
    by (auto simp: part_of_def dest!: add) (simp_all add: push_def)
  from facade_half passes explicit returns_only show ?thesis by blast
qed

text \<open>
  \<open>id('main').class('container')\<close>: the constructor gives the first reference with the
  one part; the check of \<open>class\<close> passes, so the adder returns that reference, with
  the class appended.
\<close>

theorem facade_fresh_adder_same_witness:
  "fst (facade KId ''main'' empty_heap) = 0 \<and>
   selectorsStorage (objects (snd (facade KId ''main'' empty_heap)) 0)
     = [\<lparr>selector = ''id'', value' = ''main''\<rparr>] \<and>
   fst (Selector_check ''class'' 0 (snd (facade KId ''main'' empty_heap))) = Inr () \<and>
   adder KClass ''container'' 0 (snd (facade KId ''main'' empty_heap))
     = (Inr 0, push 0 \<lparr>selector = ''class'', value' = ''container''\<rparr>
                 (snd (facade KId ''main'' empty_heap))) \<and>
   selectorsStorage (objects (snd (adder KClass ''container'' 0 (snd (facade KId ''main'' empty_heap)))) 0)
     = [\<lparr>selector = ''id'', value' = ''main''\<rparr>, \<lparr>selector = ''class'', value' = ''container''\<rparr>]"
proof -
  have st: "selectorsStorage (objects (snd (facade KId ''main'' empty_heap)) 0)
     = [\<lparr>selector = ''id'', value' = ''main''\<rparr>]"
    using facade_fresh_adder_same [of KId "''main''" empty_heap 0]
    by (simp add: empty_heap_def)
  have chk: "fst (Selector_check ''class'' 0 (snd (facade KId ''main'' empty_heap))) = Inr ()"
    by (simp add: run_defs)
  have ord: "\<not> int (rank KClass) < indexOf selectorsOrder ''id''"
    by (simp add: selectorsOrder_def)
  have ret: "adder KClass ''container'' 0 (snd (facade KId ''main'' empty_heap))
     = (Inr 0, push 0 \<lparr>selector = ''class'', value' = ''container''\<rparr>
                 (snd (facade KId ''main'' empty_heap)))"
    using facade_fresh_adder_same [of KClass "''container''" "snd (facade KId ''main'' empty_heap)" 0] chk
    by (simp del: adder.simps)
  have app: "selectorsStorage (objects (snd (adder KClass ''container'' 0 (snd (facade KId ''main'' empty_heap)))) 0)
     = selectorsStorage (objects (snd (facade KId ''main'' empty_heap)) 0)
         @ [\<lparr>selector = ''class'', value' = ''container''\<rparr>]"
    using facade_fresh_adder_same [of KClass "''container''" "snd (facade KId ''main'' empty_heap)" 0]
      st ord
    by (simp del: adder.simps)
  show ?thesis
    using st chk ret app facade_fresh_adder_same [of KId "''main''" empty_heap 0]
    by (simp add: empty_heap_def del: adder.simps)
qed

subsection \<open>C7: combine leaves its arguments alone\<close>

text \<open>
  C7. \<open>combine(l, c, r)\<close> wraps \<open>l\<close> and \<open>r\<close> as they are and returns the store it was
  given; \<open>stringify()\<close> on the combined expression returns that store too. So the parts
  of every Selector, those under \<open>l\<close> and \<open>r\<close> among them, and with them the strings
  of \<open>l\<close> and \<open>r\<close>, are after the two calls what they were before.
\<close>

theorem combine_frame:
  "fst (cssSelectorBuilder_combine l c r h) = Combined l c r \<and>
   snd (cssSelectorBuilder_combine l c r h) = h \<and>
   snd (stringify (fst (cssSelectorBuilder_combine l c r h))
                  (snd (cssSelectorBuilder_combine l c r h))) = h \<and>
   stringify l (snd (stringify (fst (cssSelectorBuilder_combine l c r h))
                               (snd (cssSelectorBuilder_combine l c r h)))) = stringify l h \<and>
   stringify r (snd (stringify (fst (cssSelectorBuilder_combine l c r h))
                               (snd (cssSelectorBuilder_combine l c r h)))) = stringify r h"
  by (simp add: cssSelectorBuilder_combine_def stringify_heap del: stringify.simps)

subsection \<open>C8: a Selector is never empty\<close>

text \<open>
  C8. After any program over the public surface, started on the empty store, every live
  Selector holds at least one part; so \<open>check\<close>, called directly or by an adder, finds a
  last part and never throws the TypeError of reading \<open>undefined\<close>.
\<close>

theorem storage_never_empty:
  assumes "run_calls cs empty_heap = Some h"
    and "r < allocated h"
  shows "selectorsStorage (objects h r) \<noteq> [] \<and>
         fst (Selector_check sel r h) \<noteq> Inl TypeError \<and>
         fst (adder k v r h) \<noteq> Inl TypeError"
proof -
  have "live_nonempty empty_heap" by (simp add: live_nonempty_def empty_heap_def)
  then have "live_nonempty h" using assms(1) by (rule live_nonempty_run_calls)
  then have ne: "selectorsStorage (objects h r) \<noteq> []"
    using assms(2) by (simp add: live_nonempty_iff)
  have c: "fst (Selector_check s r h) \<noteq> Inl TypeError" for s
    using ne by (auto simp: Selector_check_def Let_def split: list.split)
  have "fst (adder k v r h) \<noteq> Inl TypeError"
    using c [of "kind_name k"]
    by (cases "Selector_check (kind_name k) r h") (auto simp: adder_check split: sum.split)
  with ne c show ?thesis by simp
qed

text \<open>A program with a successful and a failing adder: \<open>x = id('main'); x.class('container'); x.id('again')\<close>.\<close>

theorem storage_never_empty_witness:
  "run_calls [Create KId ''main'', Add 0 KClass ''container'', Add 0 KId ''again''] empty_heap
     \<noteq> None \<and>
   selectorsStorage (objects (the (run_calls
       [Create KId ''main'', Add 0 KClass ''container'', Add 0 KId ''again''] empty_heap)) 0) \<noteq> []"
proof -
  define h where
    "h = the (run_calls [Create KId ''main'', Add 0 KClass ''container'', Add 0 KId ''again''] empty_heap)"
  have r: "run_calls [Create KId ''main'', Add 0 KClass ''container'', Add 0 KId ''again''] empty_heap
      = Some h"
    unfolding h_def by (simp add: run_defs)
  have a: "0 < allocated h"
    unfolding h_def by (simp add: run_defs)
  show ?thesis
    using storage_never_empty [OF r a] r by (simp add: h_def [symmetric])
qed

subsection \<open>C9: stringify twice\<close>

text \<open>
  C9. \<open>stringify()\<close> returns the store it was given, so a second call right after the
  first, on a Selector or on a combined expression, returns the same string.
\<close>

theorem stringify_twice:
  "snd (stringify e h) = h \<and>
   fst (stringify e (snd (stringify e h))) = fst (stringify e h) \<and>
   snd (Selector_stringify this h) = h \<and>
   fst (Selector_stringify this (snd (Selector_stringify this h))) = fst (Selector_stringify this h)"
  by (simp add: stringify_heap) (simp add: Selector_stringify_def)

subsection \<open>C10: a failed addition changes nothing\<close>

text \<open>
  C10. When an adder raises, the store it leaves is the store it was given: the parts of
  the Selector are what they were, and so is its string.
\<close>

theorem failed_add_atomic:
  assumes "fst (adder k v this h) = Inl e"
  shows "snd (adder k v this h) = h \<and>
         selectorsStorage (objects (snd (adder k v this h)) this) = selectorsStorage (objects h this) \<and>
         fst (Selector_stringify this (snd (adder k v this h))) = fst (Selector_stringify this h)"
proof -
  obtain res h1 where c: "Selector_check (kind_name k) this h = (res, h1)"
    by (cases "Selector_check (kind_name k) this h")
  have "h1 = h" using check_heap [of "kind_name k" this h] by (simp add: c)
  moreover have "\<exists>e'. res = Inl e'"
    using assms by (cases res) (simp_all add: adder_check c)
  ultimately have "snd (adder k v this h) = h"
    by (auto simp: adder_check c)
  then show ?thesis by simp
qed

text \<open>\<open>id('a').id('b')\<close>: the second call raises, and the Selector still reads \<open>#a\<close>.\<close>

theorem failed_add_atomic_witness:
  "fst (adder KId ''b'' 0 (snd (facade KId ''a'' empty_heap)))
     = Inl (Error ''Element, id and pseudo-element should not occur more then one time inside the selector'') \<and>
   snd (adder KId ''b'' 0 (snd (facade KId ''a'' empty_heap))) = snd (facade KId ''a'' empty_heap) \<and>
   fst (Selector_stringify 0 (snd (adder KId ''b'' 0 (snd (facade KId ''a'' empty_heap))))) = ''#a''"
proof -
  have e: "fst (adder KId ''b'' 0 (snd (facade KId ''a'' empty_heap)))
     = Inl (Error ''Element, id and pseudo-element should not occur more then one time inside the selector'')"
    by (simp add: run_defs)
  have s: "fst (Selector_stringify 0 (snd (facade KId ''a'' empty_heap))) = ''#a''"
    by (simp add: Selector_stringify_def stringify_item_def run_defs)
  show ?thesis using failed_add_atomic [OF e] e s by simp
qed

end
